theory Spec2Isabelle
  imports Complex_Main
begin

section \<open>Data model (models.py)\<close>

text \<open>
  Python \<open>str\<close> values are modelled as \<open>string\<close>, holding the UTF-8 bytes of the text;
  Python \<open>float\<close> values (scores, distances) are modelled as \<open>real\<close>, so the rounding of
  IEEE arithmetic is not part of the model.
\<close>

datatype ContentType = TEXT | IMAGE

text \<open>
  A metadata \<open>dict\<close> maps string keys to the scalar values the index stores.
\<close>

datatype meta_value = MStr string | MInt int | MFloat real | MBool bool

type_synonym metadata = "string \<rightharpoonup> meta_value"

record SearchResult =
  sr_content :: string
  sr_score :: real
  sr_metadata :: metadata
  sr_content_type :: ContentType

record SourceInfo =
  si_content :: string
  si_source_file :: string
  si_content_type :: ContentType
  si_score :: real
  si_image_path :: "string option"

record ChatMessage =
  cm_question :: string
  cm_answer :: string
  cm_sources :: "SourceInfo list"
  cm_timestamp :: string

record LLMResponse =
  llm_content :: string
  llm_model :: string
  llm_usage :: "string \<rightharpoonup> int"

record ChatResponse =
  cr_answer :: string
  cr_sources :: "SourceInfo list"
  cr_session_id :: string

text \<open>
  Exceptions. The only thing the code inspects about a raised exception is whether the
  handler \<^verbatim>\<open>except Exception\<close> matches it: \<open>Exception name\<close> stands for an instance of
  (a subclass of) \<^verbatim>\<open>Exception\<close>, \<open>BaseException name\<close> for one that derives from
  \<^verbatim>\<open>BaseException\<close> only (\<^verbatim>\<open>asyncio.CancelledError\<close>, \<^verbatim>\<open>KeyboardInterrupt\<close>,
  \<^verbatim>\<open>SystemExit\<close>).
\<close>

datatype exn = Exception string | BaseException string

section \<open>Fixed texts (chat\_service.py)\<close>

text \<open>
  The fixed texts are Japanese; each constant lists the UTF-8 bytes of the source literal.
  \<open>SYSTEM_PROMPT\<close>: "You are an FAQ chatbot. Answer only on the basis of the supplied FAQ
  context. For information the context does not contain, answer that no matching
  information was found. Answer concisely and accurately, in Japanese."
\<close>

definition SYSTEM_PROMPT :: string where
  "SYSTEM_PROMPT =
    [CHR 0xE3, CHR 0x81, CHR 0x82, CHR 0xE3, CHR 0x81, CHR 0xAA, CHR 0xE3, CHR 0x81, CHR 0x9F,
     CHR 0xE3, CHR 0x81, CHR 0xAF, CHR 0x46, CHR 0x41, CHR 0x51, CHR 0xE3, CHR 0x83, CHR 0x81,
     CHR 0xE3, CHR 0x83, CHR 0xA3, CHR 0xE3, CHR 0x83, CHR 0x83, CHR 0xE3, CHR 0x83, CHR 0x88,
     CHR 0xE3, CHR 0x83, CHR 0x9C, CHR 0xE3, CHR 0x83, CHR 0x83, CHR 0xE3, CHR 0x83, CHR 0x88,
     CHR 0xE3, CHR 0x81, CHR 0xA7, CHR 0xE3, CHR 0x81, CHR 0x99, CHR 0xE3, CHR 0x80, CHR 0x82,
     CHR 0xE6, CHR 0x8F, CHR 0x90, CHR 0xE4, CHR 0xBE, CHR 0x9B, CHR 0xE3, CHR 0x81, CHR 0x95,
     CHR 0xE3, CHR 0x82, CHR 0x8C, CHR 0xE3, CHR 0x81, CHR 0x9F, CHR 0x46, CHR 0x41, CHR 0x51,
     CHR 0xE3, CHR 0x82, CHR 0xB3, CHR 0xE3, CHR 0x83, CHR 0xB3, CHR 0xE3, CHR 0x83, CHR 0x86,
     CHR 0xE3, CHR 0x82, CHR 0xAD, CHR 0xE3, CHR 0x82, CHR 0xB9, CHR 0xE3, CHR 0x83, CHR 0x88,
     CHR 0xE3, CHR 0x81, CHR 0xAB, CHR 0xE5, CHR 0x9F, CHR 0xBA, CHR 0xE3, CHR 0x81, CHR 0xA5,
     CHR 0xE3, CHR 0x81, CHR 0x84, CHR 0xE3, CHR 0x81, CHR 0xA6, CHR 0xE3, CHR 0x81, CHR 0xAE,
     CHR 0xE3, CHR 0x81, CHR 0xBF, CHR 0xE5, CHR 0x9B, CHR 0x9E, CHR 0xE7, CHR 0xAD, CHR 0x94,
     CHR 0xE3, CHR 0x81, CHR 0x97, CHR 0xE3, CHR 0x81, CHR 0xA6, CHR 0xE3, CHR 0x81, CHR 0x8F,
     CHR 0xE3, CHR 0x81, CHR 0xA0, CHR 0xE3, CHR 0x81, CHR 0x95, CHR 0xE3, CHR 0x81, CHR 0x84,
     CHR 0xE3, CHR 0x80, CHR 0x82, CHR 0xE3, CHR 0x82, CHR 0xB3, CHR 0xE3, CHR 0x83, CHR 0xB3,
     CHR 0xE3, CHR 0x83, CHR 0x86, CHR 0xE3, CHR 0x82, CHR 0xAD, CHR 0xE3, CHR 0x82, CHR 0xB9,
     CHR 0xE3, CHR 0x83, CHR 0x88, CHR 0xE3, CHR 0x81, CHR 0xAB, CHR 0xE5, CHR 0x90, CHR 0xAB,
     CHR 0xE3, CHR 0x81, CHR 0xBE, CHR 0xE3, CHR 0x82, CHR 0x8C, CHR 0xE3, CHR 0x81, CHR 0xAA,
     CHR 0xE3, CHR 0x81, CHR 0x84, CHR 0xE6, CHR 0x83, CHR 0x85, CHR 0xE5, CHR 0xA0, CHR 0xB1,
     CHR 0xE3, CHR 0x81, CHR 0xAB, CHR 0xE3, CHR 0x81, CHR 0xA4, CHR 0xE3, CHR 0x81, CHR 0x84,
     CHR 0xE3, CHR 0x81, CHR 0xA6, CHR 0xE3, CHR 0x81, CHR 0xAF, CHR 0xE3, CHR 0x80, CHR 0x8C,
     CHR 0xE8, CHR 0xA9, CHR 0xB2, CHR 0xE5, CHR 0xBD, CHR 0x93, CHR 0xE3, CHR 0x81, CHR 0x99,
     CHR 0xE3, CHR 0x82, CHR 0x8B, CHR 0xE6, CHR 0x83, CHR 0x85, CHR 0xE5, CHR 0xA0, CHR 0xB1,
     CHR 0xE3, CHR 0x81, CHR 0x8C, CHR 0xE8, CHR 0xA6, CHR 0x8B, CHR 0xE3, CHR 0x81, CHR 0xA4,
     CHR 0xE3, CHR 0x81, CHR 0x8B, CHR 0xE3, CHR 0x82, CHR 0x8A, CHR 0xE3, CHR 0x81, CHR 0xBE,
     CHR 0xE3, CHR 0x81, CHR 0x9B, CHR 0xE3, CHR 0x82, CHR 0x93, CHR 0xE3, CHR 0x81, CHR 0xA7,
     CHR 0xE3, CHR 0x81, CHR 0x97, CHR 0xE3, CHR 0x81, CHR 0x9F, CHR 0xE3, CHR 0x80, CHR 0x8D,
     CHR 0xE3, CHR 0x81, CHR 0xA8, CHR 0xE5, CHR 0x9B, CHR 0x9E, CHR 0xE7, CHR 0xAD, CHR 0x94,
     CHR 0xE3, CHR 0x81, CHR 0x97, CHR 0xE3, CHR 0x81, CHR 0xA6, CHR 0xE3, CHR 0x81, CHR 0x8F,
     CHR 0xE3, CHR 0x81, CHR 0xA0, CHR 0xE3, CHR 0x81, CHR 0x95, CHR 0xE3, CHR 0x81, CHR 0x84,
     CHR 0xE3, CHR 0x80, CHR 0x82, CHR 0xE5, CHR 0x9B, CHR 0x9E, CHR 0xE7, CHR 0xAD, CHR 0x94,
     CHR 0xE3, CHR 0x81, CHR 0xAF, CHR 0xE7, CHR 0xB0, CHR 0xA1, CHR 0xE6, CHR 0xBD, CHR 0x94,
     CHR 0xE3, CHR 0x81, CHR 0x8B, CHR 0xE3, CHR 0x81, CHR 0xA4, CHR 0xE6, CHR 0xAD, CHR 0xA3,
     CHR 0xE7, CHR 0xA2, CHR 0xBA, CHR 0xE3, CHR 0x81, CHR 0xAB, CHR 0xE3, CHR 0x80, CHR 0x81,
     CHR 0xE6, CHR 0x97, CHR 0xA5, CHR 0xE6, CHR 0x9C, CHR 0xAC, CHR 0xE8, CHR 0xAA, CHR 0x9E,
     CHR 0xE3, CHR 0x81, CHR 0xA7, CHR 0xE8, CHR 0xA1, CHR 0x8C, CHR 0xE3, CHR 0x81, CHR 0xA3,
     CHR 0xE3, CHR 0x81, CHR 0xA6, CHR 0xE3, CHR 0x81, CHR 0x8F, CHR 0xE3, CHR 0x81, CHR 0xA0,
     CHR 0xE3, CHR 0x81, CHR 0x95, CHR 0xE3, CHR 0x81, CHR 0x84, CHR 0xE3, CHR 0x80, CHR 0x82]"

text \<open>"The knowledge base has not been built. Run the data ingestion first."\<close>

definition KNOWLEDGE_BASE_NOT_BUILT :: string where
  "KNOWLEDGE_BASE_NOT_BUILT =
    [CHR 0xE3, CHR 0x83, CHR 0x8A, CHR 0xE3, CHR 0x83, CHR 0xAC, CHR 0xE3, CHR 0x83, CHR 0x83,
     CHR 0xE3, CHR 0x82, CHR 0xB8, CHR 0xE3, CHR 0x83, CHR 0x99, CHR 0xE3, CHR 0x83, CHR 0xBC,
     CHR 0xE3, CHR 0x82, CHR 0xB9, CHR 0xE3, CHR 0x81, CHR 0x8C, CHR 0xE6, CHR 0x9C, CHR 0xAA,
     CHR 0xE6, CHR 0xA7, CHR 0x8B, CHR 0xE7, CHR 0xAF, CHR 0x89, CHR 0xE3, CHR 0x81, CHR 0xA7,
     CHR 0xE3, CHR 0x81, CHR 0x99, CHR 0xE3, CHR 0x80, CHR 0x82, CHR 0xE5, CHR 0x85, CHR 0x88,
     CHR 0xE3, CHR 0x81, CHR 0xAB, CHR 0xE3, CHR 0x83, CHR 0x87, CHR 0xE3, CHR 0x83, CHR 0xBC,
     CHR 0xE3, CHR 0x82, CHR 0xBF, CHR 0xE3, CHR 0x81, CHR 0xAE, CHR 0xE5, CHR 0x8F, CHR 0x96,
     CHR 0xE3, CHR 0x82, CHR 0x8A, CHR 0xE8, CHR 0xBE, CHR 0xBC, CHR 0xE3, CHR 0x81, CHR 0xBF,
     CHR 0xE3, CHR 0x82, CHR 0x92, CHR 0xE5, CHR 0xAE, CHR 0x9F, CHR 0xE8, CHR 0xA1, CHR 0x8C,
     CHR 0xE3, CHR 0x81, CHR 0x97, CHR 0xE3, CHR 0x81, CHR 0xA6, CHR 0xE3, CHR 0x81, CHR 0x8F,
     CHR 0xE3, CHR 0x81, CHR 0xA0, CHR 0xE3, CHR 0x81, CHR 0x95, CHR 0xE3, CHR 0x81, CHR 0x84,
     CHR 0xE3, CHR 0x80, CHR 0x82]"

text \<open>"Generating the answer failed. Please try again after a while."\<close>

definition ANSWER_GENERATION_FAILED :: string where
  "ANSWER_GENERATION_FAILED =
    [CHR 0xE5, CHR 0x9B, CHR 0x9E, CHR 0xE7, CHR 0xAD, CHR 0x94, CHR 0xE3, CHR 0x81, CHR 0xAE,
     CHR 0xE7, CHR 0x94, CHR 0x9F, CHR 0xE6, CHR 0x88, CHR 0x90, CHR 0xE3, CHR 0x81, CHR 0xAB,
     CHR 0xE5, CHR 0xA4, CHR 0xB1, CHR 0xE6, CHR 0x95, CHR 0x97, CHR 0xE3, CHR 0x81, CHR 0x97,
     CHR 0xE3, CHR 0x81, CHR 0xBE, CHR 0xE3, CHR 0x81, CHR 0x97, CHR 0xE3, CHR 0x81, CHR 0x9F,
     CHR 0xE3, CHR 0x80, CHR 0x82, CHR 0xE3, CHR 0x81, CHR 0x97, CHR 0xE3, CHR 0x81, CHR 0xB0,
     CHR 0xE3, CHR 0x82, CHR 0x89, CHR 0xE3, CHR 0x81, CHR 0x8F, CHR 0xE3, CHR 0x81, CHR 0x97,
     CHR 0xE3, CHR 0x81, CHR 0xA6, CHR 0xE3, CHR 0x81, CHR 0x8B, CHR 0xE3, CHR 0x82, CHR 0x89,
     CHR 0xE5, CHR 0x86, CHR 0x8D, CHR 0xE5, CHR 0xBA, CHR 0xA6, CHR 0xE3, CHR 0x81, CHR 0x8A,
     CHR 0xE8, CHR 0xA9, CHR 0xA6, CHR 0xE3, CHR 0x81, CHR 0x97, CHR 0xE3, CHR 0x81, CHR 0x8F,
     CHR 0xE3, CHR 0x81, CHR 0xA0, CHR 0xE3, CHR 0x81, CHR 0x95, CHR 0xE3, CHR 0x81, CHR 0x84,
     CHR 0xE3, CHR 0x80, CHR 0x82]"

text \<open>"The following is the FAQ context:" followed by two line feeds.\<close>

definition CONTEXT_HEADER :: string where
  "CONTEXT_HEADER =
    [CHR 0xE4, CHR 0xBB, CHR 0xA5, CHR 0xE4, CHR 0xB8, CHR 0x8B, CHR 0xE3, CHR 0x81, CHR 0xAF,
     CHR 0x46, CHR 0x41, CHR 0x51, CHR 0xE3, CHR 0x82, CHR 0xB3, CHR 0xE3, CHR 0x83, CHR 0xB3,
     CHR 0xE3, CHR 0x83, CHR 0x86, CHR 0xE3, CHR 0x82, CHR 0xAD, CHR 0xE3, CHR 0x82, CHR 0xB9,
     CHR 0xE3, CHR 0x83, CHR 0x88, CHR 0xE3, CHR 0x81, CHR 0xA7, CHR 0xE3, CHR 0x81, CHR 0x99,
     CHR 0x3A, CHR 0x0A, CHR 0x0A]"

text \<open>The text logged by the handler: "answer generation failed".\<close>

definition LOG_ANSWER_FAILED :: string where
  "LOG_ANSWER_FAILED =
    [CHR 0xE5, CHR 0x9B, CHR 0x9E, CHR 0xE7, CHR 0xAD, CHR 0x94, CHR 0xE7, CHR 0x94, CHR 0x9F,
     CHR 0xE6, CHR 0x88, CHR 0x90, CHR 0xE3, CHR 0x81, CHR 0xAB, CHR 0xE5, CHR 0xA4, CHR 0xB1,
     CHR 0xE6, CHR 0x95, CHR 0x97, CHR 0xE3, CHR 0x81, CHR 0x97, CHR 0xE3, CHR 0x81, CHR 0xBE,
     CHR 0xE3, CHR 0x81, CHR 0x97, CHR 0xE3, CHR 0x81, CHR 0x9F]"

section \<open>String helpers of the Python runtime\<close>

text \<open>\<open>str(n)\<close> for a non-negative integer: its decimal digits.\<close>

definition digit_char :: "nat \<Rightarrow> char" where
  "digit_char d = ''0123456789'' ! d"

function str_nat :: "nat \<Rightarrow> string" where
  "str_nat n = (if n < 10 then [digit_char n] else str_nat (n div 10) @ [digit_char (n mod 10)])"
  by pat_completeness auto
termination
  by (relation "measure id") auto

declare str_nat.simps [simp del]

text \<open>\<open>sep.join(parts)\<close>.\<close>

fun join :: "string \<Rightarrow> string list \<Rightarrow> string" where
  "join sep [] = []"
| "join sep [x] = x"
| "join sep (x # y # ys) = x @ sep @ join sep (y # ys)"

section \<open>Prompt assembly (ChatService.\_build\_prompt)\<close>

text \<open>A prompt message is the dict \<^verbatim>\<open>{"role": ..., "content": ...}\<close>.\<close>

record prompt_message =
  role :: string
  content :: string

text \<open>
  The loop \<^verbatim>\<open>for i, result in enumerate(context, 1): context_parts.append(f"[{i}] {result.content}")\<close>,
  with the running index and the list built so far.
\<close>

fun context_parts_loop :: "nat \<Rightarrow> SearchResult list \<Rightarrow> string list \<Rightarrow> string list" where
  "context_parts_loop i [] context_parts = context_parts"
| "context_parts_loop i (result # rest) context_parts =
     context_parts_loop (Suc i) rest
       (context_parts @ [''['' @ str_nat i @ ''] '' @ sr_content result])"

text \<open>
  The loop over the history, appending a user entry and an assistant entry per message.
\<close>

fun history_loop :: "ChatMessage list \<Rightarrow> prompt_message list \<Rightarrow> prompt_message list" where
  "history_loop [] messages = messages"
| "history_loop (msg # rest) messages =
     history_loop rest
       ((messages @ [\<lparr>role = ''user'', content = cm_question msg\<rparr>])
          @ [\<lparr>role = ''assistant'', content = cm_answer msg\<rparr>])"

definition build_prompt ::
  "string \<Rightarrow> SearchResult list \<Rightarrow> ChatMessage list \<Rightarrow> prompt_message list" where
  "build_prompt question context history =
     (let messages0 = [] @ [\<lparr>role = ''system'', content = SYSTEM_PROMPT\<rparr>];
          messages1 =
            (if context \<noteq> [] then
               (let context_parts = context_parts_loop 1 context [];
                    context_text = join [CHR 0x0A, CHR 0x0A] context_parts
                in messages0 @ [\<lparr>role = ''system'', content = CONTEXT_HEADER @ context_text\<rparr>])
             else messages0);
          messages2 = history_loop history messages1
      in messages2 @ [\<lparr>role = ''user'', content = question\<rparr>])"

section \<open>Citation derivation (ChatService.\_build\_sources)\<close>

text \<open>
  \<open>SourceInfo\<close> is a validated model: \<open>source_file\<close> is a \<^verbatim>\<open>str\<close> field and
  \<open>image_path\<close> an \<^verbatim>\<open>Optional[str]\<close> field. A metadata value of another type makes the
  constructor raise a validation error (an \<^verbatim>\<open>Exception\<close>).
\<close>

definition ValidationError :: exn where
  "ValidationError = Exception ''ValidationError''"

text \<open>\<^verbatim>\<open>r.metadata.get("source_file", "")\<close>, validated as \<^verbatim>\<open>str\<close>.\<close>

definition source_file_of :: "metadata \<Rightarrow> exn + string" where
  "source_file_of m =
     (case m ''source_file'' of
        None \<Rightarrow> Inr ''''
      | Some (MStr s) \<Rightarrow> Inr s
      | Some _ \<Rightarrow> Inl ValidationError)"

text \<open>
  \<^verbatim>\<open>r.metadata.get("image_path") if r.content_type == ContentType.IMAGE else None\<close>,
  validated as \<^verbatim>\<open>Optional[str]\<close>.
\<close>

definition image_path_of :: "metadata \<Rightarrow> ContentType \<Rightarrow> exn + string option" where
  "image_path_of m ct =
     (if ct = IMAGE then
        (case m ''image_path'' of
           None \<Rightarrow> Inr None
         | Some (MStr p) \<Rightarrow> Inr (Some p)
         | Some _ \<Rightarrow> Inl ValidationError)
      else Inr None)"

definition make_source :: "SearchResult \<Rightarrow> exn + SourceInfo" where
  "make_source r =
     (case source_file_of (sr_metadata r) of
        Inl e \<Rightarrow> Inl e
      | Inr f \<Rightarrow>
          (case image_path_of (sr_metadata r) (sr_content_type r) of
             Inl e \<Rightarrow> Inl e
           | Inr p \<Rightarrow>
               Inr \<lparr>si_content = sr_content r, si_source_file = f,
                    si_content_type = sr_content_type r, si_score = sr_score r,
                    si_image_path = p\<rparr>))"

text \<open>The loop \<^verbatim>\<open>for r in search_results: ... sources.append(source)\<close>.\<close>

fun sources_loop :: "SearchResult list \<Rightarrow> SourceInfo list \<Rightarrow> exn + SourceInfo list" where
  "sources_loop [] sources = Inr sources"
| "sources_loop (r # rest) sources =
     (case make_source r of
        Inl e \<Rightarrow> Inl e
      | Inr source \<Rightarrow> sources_loop rest (sources @ [source]))"

definition build_sources :: "SearchResult list \<Rightarrow> exn + SourceInfo list" where
  "build_sources search_results = sources_loop search_results []"

section \<open>Vector store (store/vector\_store.py)\<close>

text \<open>
  The index behind the store is an external library. It is taken as a parameter: what
  \<^verbatim>\<open>collection.count()\<close> answers, and what \<^verbatim>\<open>collection.query(query_texts=[q], n_results=n,
  include=[...])\<close> answers for each query text and each \<open>n\<close>. Either call may raise. The
  answer of a query is the three parallel lists the code reads: documents (an entry may be
  \<^verbatim>\<open>None\<close>), metadata dicts (an entry may be \<^verbatim>\<open>None\<close>) and distances.
\<close>

record query_result =
  qr_documents :: "string option list"
  qr_metadatas :: "metadata option list"
  qr_distances :: "real list"

record collection =
  col_count :: "exn + nat"
  col_query :: "string \<Rightarrow> int \<Rightarrow> exn + query_result"

text \<open>
  \<^verbatim>\<open>ContentType(meta.get("content_type", "text"))\<close>: the enum lookup by value raises
  \<^verbatim>\<open>ValueError\<close> for anything but the two member values.
\<close>

definition content_type_of :: "metadata \<Rightarrow> exn + ContentType" where
  "content_type_of meta =
     (case meta ''content_type'' of
        None \<Rightarrow> Inr TEXT
      | Some (MStr v) \<Rightarrow>
          (if v = ''text'' then Inr TEXT
           else if v = ''image'' then Inr IMAGE
           else Inl (Exception ''ValueError''))
      | Some _ \<Rightarrow> Inl (Exception ''ValueError''))"

text \<open>
  The loop over \<^verbatim>\<open>zip(documents, metadatas, distances)\<close>. A \<^verbatim>\<open>None\<close> metadata entry makes
  \<^verbatim>\<open>meta.get\<close> raise \<^verbatim>\<open>AttributeError\<close>; \<^verbatim>\<open>doc or ""\<close> replaces a missing document by
  the empty string.
\<close>

fun search_loop ::
  "(string option \<times> metadata option \<times> real) list \<Rightarrow> SearchResult list \<Rightarrow> exn + SearchResult list" where
  "search_loop [] search_results = Inr search_results"
| "search_loop ((doc, meta_opt, distance) # rest) search_results =
     (let score = 1 - distance in
      case meta_opt of
        None \<Rightarrow> Inl (Exception ''AttributeError'')
      | Some meta \<Rightarrow>
          (case content_type_of meta of
             Inl e \<Rightarrow> Inl e
           | Inr content_type \<Rightarrow>
               search_loop rest
                 (search_results @
                    [\<lparr>sr_content = (case doc of None \<Rightarrow> [] | Some d \<Rightarrow> d),
                      sr_score = score, sr_metadata = meta,
                      sr_content_type = content_type\<rparr>])))"

definition search :: "collection \<Rightarrow> string \<Rightarrow> int \<Rightarrow> exn + SearchResult list" where
  "search c query_text top_k =
     (case col_count c of
        Inl e \<Rightarrow> Inl e
      | Inr count \<Rightarrow>
          if count = 0 then Inr []
          else
            (let effective_k = min top_k (int count) in
             case col_query c query_text effective_k of
               Inl e \<Rightarrow> Inl e
             | Inr results \<Rightarrow>
                 search_loop
                   (zip (qr_documents results)
                      (zip (qr_metadatas results) (qr_distances results)))
                   []))"

definition is_empty :: "collection \<Rightarrow> exn + bool" where
  "is_empty c = (case col_count c of Inl e \<Rightarrow> Inl e | Inr count \<Rightarrow> Inr (count = 0))"

section \<open>Session store (services/session\_manager.py)\<close>

text \<open>
  The \<^verbatim>\<open>sessions\<close> collection of the document database is the list of its documents in
  insertion order. Messages are stored with \<^verbatim>\<open>model_dump\<close> and read back with
  \<^verbatim>\<open>model_validate\<close>; the stored form of a message is modelled as the message itself.
\<close>

record session_doc =
  sd_session_id :: string
  sd_messages :: "ChatMessage list"
  sd_created_at :: string

text \<open>
  The three database operations the manager uses, on a database that answers:
  \<^verbatim>\<open>insert_one\<close> adds a document, \<^verbatim>\<open>find_one({"session_id": sid})\<close> returns the first
  document with that id or \<^verbatim>\<open>None\<close>, and \<^verbatim>\<open>update_one({"session_id": sid}, {"$push":
  {"messages": m}})\<close> (no upsert) appends to the first document with that id and changes
  nothing when there is none.
\<close>

definition insert_one :: "session_doc list \<Rightarrow> session_doc \<Rightarrow> session_doc list" where
  "insert_one docs d = docs @ [d]"

definition find_one :: "session_doc list \<Rightarrow> string \<Rightarrow> session_doc option" where
  "find_one docs sid = List.find (\<lambda>d. sd_session_id d = sid) docs"

fun update_one_push :: "session_doc list \<Rightarrow> string \<Rightarrow> ChatMessage \<Rightarrow> session_doc list" where
  "update_one_push [] sid m = []"
| "update_one_push (d # ds) sid m =
     (if sd_session_id d = sid then d\<lparr>sd_messages := sd_messages d @ [m]\<rparr> # ds
      else d # update_one_push ds sid m)"

text \<open>
  \<open>create_session\<close>: the random identifier \<^verbatim>\<open>str(uuid.uuid4())\<close> and the clock reading are
  parameters.
\<close>

definition create_session ::
  "session_doc list \<Rightarrow> string \<Rightarrow> string \<Rightarrow> string \<times> session_doc list" where
  "create_session docs new_id now =
     (new_id, insert_one docs \<lparr>sd_session_id = new_id, sd_messages = [], sd_created_at = now\<rparr>)"

definition add_message ::
  "string \<Rightarrow> session_doc list \<Rightarrow> string \<Rightarrow> string \<Rightarrow> string \<Rightarrow> SourceInfo list \<Rightarrow> session_doc list" where
  "add_message now docs sid question answer sources =
     (let message = \<lparr>cm_question = question, cm_answer = answer, cm_sources = sources,
                     cm_timestamp = now\<rparr>
      in update_one_push docs sid message)"

text \<open>
  The Python slice \<^verbatim>\<open>xs[start:]\<close> for an integer \<open>start\<close>: a negative start counts from the
  end, and the start is clamped to the list.
\<close>

definition slice_from :: "'a list \<Rightarrow> int \<Rightarrow> 'a list" where
  "slice_from xs start =
     (let len = int (length xs);
          lo = (if start < 0 then max (len + start) 0 else min start len)
      in drop (nat lo) xs)"

definition get_recent_history :: "session_doc list \<Rightarrow> string \<Rightarrow> int \<Rightarrow> ChatMessage list" where
  "get_recent_history docs sid n =
     (case find_one docs sid of
        None \<Rightarrow> []
      | Some doc \<Rightarrow>
          (let messages_data = sd_messages doc in
           if int (length messages_data) > n then slice_from messages_data (- n)
           else messages_data))"

section \<open>The answer pipeline (ChatService.answer)\<close>

text \<open>
  What one call of \<open>answer\<close> depends on besides its arguments and the stored sessions: the
  index, the provider's chat completion (which may raise), the two configured constants,
  the clock, and whether the database driver raises during the history lookup
  (\<^verbatim>\<open>find_one\<close>) or during the append (\<^verbatim>\<open>update_one\<close>). A driver call that raises leaves the
  stored sessions as they were.
\<close>

record env =
  env_store :: collection
  env_chat_completion :: "prompt_message list \<Rightarrow> exn + LLMResponse"
  env_top_k :: int
  env_history_limit :: int
  env_now :: string
  env_find_one_raises :: "exn option"
  env_update_one_raises :: "exn option"

text \<open>
  The calls \<open>answer\<close> makes on its collaborators, recorded in the order made, so that
  "is not invoked" can be stated.
\<close>

datatype call =
    CallIsEmpty
  | CallSearch string int
  | CallGetRecentHistory string int
  | CallChatCompletion "prompt_message list"
  | CallAddMessage string string string "SourceInfo list"
  | CallLogException string

text \<open>
  The outcome of a run: the value returned or the exception that leaves the function, the
  stored sessions afterwards, and the calls made.
\<close>

record 'a run =
  run_result :: "exn + 'a"
  run_sessions :: "session_doc list"
  run_calls :: "call list"

text \<open>The body of the \<^verbatim>\<open>try\<close> block, steps 1 to 6 of the source.\<close>

definition try_block ::
  "env \<Rightarrow> session_doc list \<Rightarrow> string \<Rightarrow> string \<Rightarrow> ChatResponse run" where
  "try_block e docs question sid =
     (let c1 = [CallSearch question (env_top_k e)] in
      case search (env_store e) question (env_top_k e) of
        Inl x \<Rightarrow> \<lparr>run_result = Inl x, run_sessions = docs, run_calls = c1\<rparr>
      | Inr search_results \<Rightarrow>
          (let c2 = c1 @ [CallGetRecentHistory sid (env_history_limit e)] in
           case env_find_one_raises e of
             Some x \<Rightarrow> \<lparr>run_result = Inl x, run_sessions = docs, run_calls = c2\<rparr>
           | None \<Rightarrow>
               (let history = get_recent_history docs sid (env_history_limit e);
                    messages = build_prompt question search_results history;
                    c3 = c2 @ [CallChatCompletion messages]
                in
                case env_chat_completion e messages of
                  Inl x \<Rightarrow> \<lparr>run_result = Inl x, run_sessions = docs, run_calls = c3\<rparr>
                | Inr llm_response \<Rightarrow>
                    (case build_sources search_results of
                       Inl x \<Rightarrow> \<lparr>run_result = Inl x, run_sessions = docs, run_calls = c3\<rparr>
                     | Inr sources \<Rightarrow>
                         (let c4 = c3 @ [CallAddMessage sid question
                                           (llm_content llm_response) sources]
                          in
                          case env_update_one_raises e of
                            Some x \<Rightarrow>
                              \<lparr>run_result = Inl x, run_sessions = docs, run_calls = c4\<rparr>
                          | None \<Rightarrow>
                              \<lparr>run_result =
                                 Inr \<lparr>cr_answer = llm_content llm_response,
                                      cr_sources = sources, cr_session_id = sid\<rparr>,
                               run_sessions =
                                 add_message (env_now e) docs sid question
                                   (llm_content llm_response) sources,
                               run_calls = c4\<rparr>)))))"

text \<open>
  \<open>answer\<close>: the emptiness check runs before the \<^verbatim>\<open>try\<close>; the handler
  \<^verbatim>\<open>except Exception\<close> logs and returns the fixed failure response, and does not match an
  exception outside \<^verbatim>\<open>Exception\<close>.
\<close>

definition answer ::
  "env \<Rightarrow> session_doc list \<Rightarrow> string \<Rightarrow> string \<Rightarrow> ChatResponse run" where
  "answer e docs question sid =
     (case is_empty (env_store e) of
        Inl x \<Rightarrow> \<lparr>run_result = Inl x, run_sessions = docs, run_calls = [CallIsEmpty]\<rparr>
      | Inr True \<Rightarrow>
          \<lparr>run_result =
             Inr \<lparr>cr_answer = KNOWLEDGE_BASE_NOT_BUILT, cr_sources = [], cr_session_id = sid\<rparr>,
           run_sessions = docs, run_calls = [CallIsEmpty]\<rparr>
      | Inr False \<Rightarrow>
          (let r = try_block e docs question sid in
           case run_result r of
             Inr response \<Rightarrow> r\<lparr>run_calls := CallIsEmpty # run_calls r\<rparr>
           | Inl (Exception name) \<Rightarrow>
               \<lparr>run_result =
                  Inr \<lparr>cr_answer = ANSWER_GENERATION_FAILED, cr_sources = [],
                       cr_session_id = sid\<rparr>,
                run_sessions = run_sessions r,
                run_calls = CallIsEmpty # run_calls r @ [CallLogException LOG_ANSWER_FAILED]\<rparr>
           | Inl (BaseException name) \<Rightarrow> r\<lparr>run_calls := CallIsEmpty # run_calls r\<rparr>))"

section \<open>Example environments\<close>

text \<open>
  A populated index holding one chunk, a provider that answers \<open>ok\<close>, the default
  configuration and a database holding one empty session.
\<close>

definition example_collection :: collection where
  "example_collection =
     \<lparr>col_count = Inr 1,
      col_query = (\<lambda>q n. Inr \<lparr>qr_documents = [Some ''A''],
                               qr_metadatas = [Some [''source_file'' \<mapsto> MStr ''faq.xlsx'']],
                               qr_distances = [1 / 10]\<rparr>)\<rparr>"

definition example_env :: env where
  "example_env =
     \<lparr>env_store = example_collection,
      env_chat_completion = (\<lambda>messages. Inr \<lparr>llm_content = ''ok'', llm_model = ''m'', llm_usage = Map.empty\<rparr>),
      env_top_k = 3, env_history_limit = 5, env_now = ''t1'',
      env_find_one_raises = None, env_update_one_raises = None\<rparr>"

definition example_sessions :: "session_doc list" where
  "example_sessions = [\<lparr>sd_session_id = ''s1'', sd_messages = [], sd_created_at = ''t0''\<rparr>]"

text \<open>
  An index holding three chunks \<open>A\<close>, \<open>B\<close>, \<open>C\<close> at cosine distances 0.1, 0.4 and 0.2 of
  every query, answering a query for \<open>n\<close> results with the \<open>n\<close> nearest, nearest first.
\<close>

definition scenario_collection :: collection where
  "scenario_collection =
     \<lparr>col_count = Inr 3,
      col_query = (\<lambda>q n. Inr
         \<lparr>qr_documents = take (nat n) [Some ''A'', Some ''C'', Some ''B''],
          qr_metadatas = take (nat n)
            [Some [''content_type'' \<mapsto> MStr ''text''],
             Some [''content_type'' \<mapsto> MStr ''text''],
             Some [''content_type'' \<mapsto> MStr ''text'']],
          qr_distances = take (nat n) [1 / 10, 2 / 10, 4 / 10]\<rparr>)\<rparr>"

definition example_results :: "SearchResult list" where
  "example_results =
     [\<lparr>sr_content = ''A'', sr_score = 9 / 10,
        sr_metadata = [''source_file'' \<mapsto> MStr ''faq.xlsx''], sr_content_type = TEXT\<rparr>,
      \<lparr>sr_content = ''B'', sr_score = 1 / 2,
        sr_metadata = [''source_file'' \<mapsto> MStr ''b.png'', ''image_path'' \<mapsto> MStr ''/img/b.png''],
        sr_content_type = IMAGE\<rparr>]"

text \<open>
  The message \<open>add_message\<close> stores for a turn given as (clock reading, question, answer,
  sources).
\<close>

definition turn_message :: "string \<times> string \<times> string \<times> SourceInfo list \<Rightarrow> ChatMessage" where
  "turn_message = (\<lambda>(now, q, a, srcs).
      \<lparr>cm_question = q, cm_answer = a, cm_sources = srcs, cm_timestamp = now\<rparr>)"

section \<open>Prompt assembly: the message sequence\<close>

lemma context_parts_loop_eq:
  "context_parts_loop i ctx acc =
     acc @ map (\<lambda>(j, r). ''['' @ str_nat j @ ''] '' @ sr_content r) (List.enumerate i ctx)"
  by (induction ctx arbitrary: i acc) simp_all

lemma history_loop_eq:
  "history_loop h msgs =
     msgs @ concat (map (\<lambda>m. [\<lparr>role = ''user'', content = cm_question m\<rparr>,
                                 \<lparr>role = ''assistant'', content = cm_answer m\<rparr>]) h)"
  by (induction h arbitrary: msgs) simp_all

text \<open>
  Claim C4. For every question, every list of retrieved results and every history list,
  the assembled prompt is exactly: one system message holding the fixed instruction text;
  then, only when the retrieved list is non-empty, one system message holding the context
  header followed by the retrieved contents, numbered from 1 in retrieval order and
  separated by blank lines; then one user/assistant pair per history message, oldest
  first, holding its question and its answer; then one user message holding the current
  question. There are no other messages.
\<close>

theorem build_prompt_exact:
  "build_prompt question ctx history =
     [\<lparr>role = ''system'', content = SYSTEM_PROMPT\<rparr>]
     @ (if ctx = [] then []
        else [\<lparr>role = ''system'',
               content = CONTEXT_HEADER @ join [CHR 0x0A, CHR 0x0A]
                 (map (\<lambda>(i, r). ''['' @ str_nat i @ ''] '' @ sr_content r)
                    (List.enumerate 1 ctx))\<rparr>])
     @ concat (map (\<lambda>m. [\<lparr>role = ''user'', content = cm_question m\<rparr>,
                           \<lparr>role = ''assistant'', content = cm_answer m\<rparr>]) history)
     @ [\<lparr>role = ''user'', content = question\<rparr>]"
  by (simp add: build_prompt_def context_parts_loop_eq history_loop_eq)

text \<open>
  Claim C4, at two retrieved results and one history message: five messages, the context
  message reading \<open>[1] A\<close>, a blank line, \<open>[2] B\<close> after the header.
\<close>

theorem build_prompt_exact_witness:
  "build_prompt ''q?'' example_results
     [\<lparr>cm_question = ''q0'', cm_answer = ''a0'', cm_sources = [], cm_timestamp = ''t''\<rparr>]
   = [\<lparr>role = ''system'', content = SYSTEM_PROMPT\<rparr>,
      \<lparr>role = ''system'',
       content = CONTEXT_HEADER @ ''[1] A'' @ [CHR 0x0A, CHR 0x0A] @ ''[2] B''\<rparr>,
      \<lparr>role = ''user'', content = ''q0''\<rparr>,
      \<lparr>role = ''assistant'', content = ''a0''\<rparr>,
      \<lparr>role = ''user'', content = ''q?''\<rparr>]"
  using build_prompt_exact [of "''q?''" example_results
     "[\<lparr>cm_question = ''q0'', cm_answer = ''a0'', cm_sources = [], cm_timestamp = ''t''\<rparr>]"]
  by (simp add: example_results_def enumerate_eq_zip str_nat.simps digit_char_def upt_rec)

section \<open>Citation derivation: what a SourceInfo carries\<close>

lemma make_source_Inr:
  assumes "make_source r = Inr s"
  shows "si_content s = sr_content r \<and> si_score s = sr_score r
       \<and> si_content_type s = sr_content_type r
       \<and> si_source_file s =
           (case sr_metadata r ''source_file'' of Some (MStr f) \<Rightarrow> f | _ \<Rightarrow> [])
       \<and> si_image_path s =
           (if sr_content_type r = IMAGE
            then (case sr_metadata r ''image_path'' of Some (MStr p) \<Rightarrow> Some p | _ \<Rightarrow> None)
            else None)"
  using assms
  by (auto simp: make_source_def source_file_of_def image_path_of_def
           split: sum.splits option.splits meta_value.splits if_splits)

lemma make_source_total:
  assumes "\<forall>v. sr_metadata r ''source_file'' = Some v \<longrightarrow> (\<exists>f. v = MStr f)"
    and "sr_content_type r = IMAGE \<longrightarrow>
           (\<forall>v. sr_metadata r ''image_path'' = Some v \<longrightarrow> (\<exists>p. v = MStr p))"
  shows "\<exists>s. make_source r = Inr s"
  using assms
  by (auto simp: make_source_def source_file_of_def image_path_of_def
           split: sum.splits option.splits meta_value.splits if_splits)

lemma sources_loop_Inr:
  "sources_loop rs acc = Inr ss \<Longrightarrow>
     \<exists>ss'. ss = acc @ ss' \<and> list_all2 (\<lambda>r s. make_source r = Inr s) rs ss'"
proof (induction rs arbitrary: acc)
  case Nil
  then show ?case by simp
next
  case (Cons r rs)
  from Cons.prems obtain s where s: "make_source r = Inr s"
    and rest: "sources_loop rs (acc @ [s]) = Inr ss"
    by (auto split: sum.splits)
  from Cons.IH [OF rest] obtain ss' where "ss = (acc @ [s]) @ ss'"
    and "list_all2 (\<lambda>r s. make_source r = Inr s) rs ss'" by blast
  with s show ?case by (intro exI [of _ "s # ss'"]) simp
qed

lemma sources_loop_total:
  "\<forall>r\<in>set rs. \<exists>s. make_source r = Inr s \<Longrightarrow> \<exists>ss. sources_loop rs acc = Inr ss"
  by (induction rs arbitrary: acc) auto

lemma build_sources_Inr:
  assumes "build_sources rs = Inr ss"
  shows "length ss = length rs"
    and "i < length rs \<Longrightarrow> make_source (rs ! i) = Inr (ss ! i)"
proof -
  from assms have all: "list_all2 (\<lambda>r s. make_source r = Inr s) rs ss"
    unfolding build_sources_def by (auto dest: sources_loop_Inr)
  then show "length ss = length rs" by (simp add: list_all2_lengthD)
  assume "i < length rs"
  with all show "make_source (rs ! i) = Inr (ss ! i)" by (rule list_all2_nthD)
qed

text \<open>
  Claim C5, as amended. The mapping of search results to source infos succeeds whenever
  the \<open>source_file\<close> entry of each result's metadata, and the \<open>image_path\<close> entry of each
  image result's metadata, is a string where present. Whenever it succeeds, the source
  infos are as many as the results and in the same order; each carries its result's
  content, score and content kind; its file name is the metadata's \<open>source_file\<close> entry,
  or the empty string when there is none; its image path is absent when the content kind
  is not image, and when the kind is image it is the metadata's \<open>image_path\<close> entry,
  absent when the metadata has none.
\<close>

theorem build_sources_fidelity:
  "((\<forall>r\<in>set rs.
        (\<forall>v. sr_metadata r ''source_file'' = Some v \<longrightarrow> (\<exists>f. v = MStr f)) \<and>
        (sr_content_type r = IMAGE \<longrightarrow>
           (\<forall>v. sr_metadata r ''image_path'' = Some v \<longrightarrow> (\<exists>p. v = MStr p))))
      \<longrightarrow> (\<exists>ss. build_sources rs = Inr ss))
   \<and> (\<forall>ss. build_sources rs = Inr ss \<longrightarrow>
         length ss = length rs \<and>
         (\<forall>i<length rs.
            si_content (ss ! i) = sr_content (rs ! i) \<and>
            si_score (ss ! i) = sr_score (rs ! i) \<and>
            si_content_type (ss ! i) = sr_content_type (rs ! i) \<and>
            si_source_file (ss ! i) =
              (case sr_metadata (rs ! i) ''source_file'' of Some (MStr f) \<Rightarrow> f | _ \<Rightarrow> []) \<and>
            si_image_path (ss ! i) =
              (if sr_content_type (rs ! i) = IMAGE
               then (case sr_metadata (rs ! i) ''image_path'' of
                       Some (MStr p) \<Rightarrow> Some p | _ \<Rightarrow> None)
               else None)))"
proof (rule conjI)
  show "(\<forall>r\<in>set rs.
        (\<forall>v. sr_metadata r ''source_file'' = Some v \<longrightarrow> (\<exists>f. v = MStr f)) \<and>
        (sr_content_type r = IMAGE \<longrightarrow>
           (\<forall>v. sr_metadata r ''image_path'' = Some v \<longrightarrow> (\<exists>p. v = MStr p))))
      \<longrightarrow> (\<exists>ss. build_sources rs = Inr ss)"
  proof
    assume "\<forall>r\<in>set rs.
        (\<forall>v. sr_metadata r ''source_file'' = Some v \<longrightarrow> (\<exists>f. v = MStr f)) \<and>
        (sr_content_type r = IMAGE \<longrightarrow>
           (\<forall>v. sr_metadata r ''image_path'' = Some v \<longrightarrow> (\<exists>p. v = MStr p)))"
    then have "\<forall>r\<in>set rs. \<exists>s. make_source r = Inr s"
      using make_source_total by blast
    then show "\<exists>ss. build_sources rs = Inr ss"
      unfolding build_sources_def by (rule sources_loop_total)
  qed
next
  show "\<forall>ss. build_sources rs = Inr ss \<longrightarrow>
         length ss = length rs \<and>
         (\<forall>i<length rs.
            si_content (ss ! i) = sr_content (rs ! i) \<and>
            si_score (ss ! i) = sr_score (rs ! i) \<and>
            si_content_type (ss ! i) = sr_content_type (rs ! i) \<and>
            si_source_file (ss ! i) =
              (case sr_metadata (rs ! i) ''source_file'' of Some (MStr f) \<Rightarrow> f | _ \<Rightarrow> []) \<and>
            si_image_path (ss ! i) =
              (if sr_content_type (rs ! i) = IMAGE
               then (case sr_metadata (rs ! i) ''image_path'' of
                       Some (MStr p) \<Rightarrow> Some p | _ \<Rightarrow> None)
               else None))"
    using build_sources_Inr [of rs] make_source_Inr by blast
qed

text \<open>
  Claim C5 as amended, at a text result and an image result whose metadata holds an image
  path: two source infos, the first without image path, the second with the path.
\<close>

theorem build_sources_fidelity_witness:
  "\<exists>ss. build_sources example_results = Inr ss
     \<and> length ss = 2
     \<and> si_source_file (ss ! 0) = ''faq.xlsx'' \<and> si_image_path (ss ! 0) = None
     \<and> si_source_file (ss ! 1) = ''b.png'' \<and> si_image_path (ss ! 1) = Some ''/img/b.png''"
proof -
  note fid = build_sources_fidelity [of example_results]
  have "\<forall>r\<in>set example_results.
        (\<forall>v. sr_metadata r ''source_file'' = Some v \<longrightarrow> (\<exists>f. v = MStr f)) \<and>
        (sr_content_type r = IMAGE \<longrightarrow>
           (\<forall>v. sr_metadata r ''image_path'' = Some v \<longrightarrow> (\<exists>p. v = MStr p)))"
    by (simp add: example_results_def)
  with fid obtain ss where ss: "build_sources example_results = Inr ss" by blast
  from fid ss have len: "length ss = length example_results" by blast
  from fid ss have
    "0 < length example_results \<longrightarrow>
       si_source_file (ss ! 0) =
         (case sr_metadata (example_results ! 0) ''source_file'' of
            Some (MStr f) \<Rightarrow> f | _ \<Rightarrow> []) \<and>
       si_image_path (ss ! 0) =
         (if sr_content_type (example_results ! 0) = IMAGE
          then (case sr_metadata (example_results ! 0) ''image_path'' of
                  Some (MStr p) \<Rightarrow> Some p | _ \<Rightarrow> None)
          else None)"
    by blast
  then have p0: "si_source_file (ss ! 0) = ''faq.xlsx'' \<and> si_image_path (ss ! 0) = None"
    by (simp add: example_results_def)
  from fid ss have
    "1 < length example_results \<longrightarrow>
       si_source_file (ss ! 1) =
         (case sr_metadata (example_results ! 1) ''source_file'' of
            Some (MStr f) \<Rightarrow> f | _ \<Rightarrow> []) \<and>
       si_image_path (ss ! 1) =
         (if sr_content_type (example_results ! 1) = IMAGE
          then (case sr_metadata (example_results ! 1) ''image_path'' of
                  Some (MStr p) \<Rightarrow> Some p | _ \<Rightarrow> None)
          else None)"
    by blast
  then have p1: "si_source_file (ss ! 1) = ''b.png'' \<and> si_image_path (ss ! 1) = Some ''/img/b.png''"
    by (simp add: example_results_def)
  from len have "length ss = 2" by (simp add: example_results_def)
  with ss p0 p1 show ?thesis by blast
qed

text \<open>
  Claim C5 as stated fails: an image result whose metadata holds no \<open>image_path\<close> entry is
  mapped to a source info of kind image whose image path is absent.
\<close>

theorem build_sources_image_without_path:
  "build_sources
     [\<lparr>sr_content = ''diagram'', sr_score = 1 / 2,
       sr_metadata = [''source_file'' \<mapsto> MStr ''a.png''], sr_content_type = IMAGE\<rparr>]
   = Inr [\<lparr>si_content = ''diagram'', si_source_file = ''a.png'', si_content_type = IMAGE,
            si_score = 1 / 2, si_image_path = None\<rparr>]"
  by (simp add: build_sources_def make_source_def source_file_of_def image_path_of_def)

section \<open>Vector store: search\<close>









text \<open>The same search, evaluated: \<open>A\<close> with score 0.9, then \<open>C\<close> with score 0.8.\<close>

lemma scenario_search:
  "search scenario_collection q 2 =
     Inr [\<lparr>sr_content = ''A'', sr_score = 9 / 10,
            sr_metadata = [''content_type'' \<mapsto> MStr ''text''], sr_content_type = TEXT\<rparr>,
          \<lparr>sr_content = ''C'', sr_score = 8 / 10,
            sr_metadata = [''content_type'' \<mapsto> MStr ''text''], sr_content_type = TEXT\<rparr>]"
  by (simp add: search_def scenario_collection_def content_type_of_def)

section \<open>Session store: appending and reading back\<close>

lemma find_one_None_iff: "find_one docs sid = None \<longleftrightarrow> sid \<notin> sd_session_id ` set docs"
  by (auto simp: find_one_def find_None_iff)

lemma update_one_push_absent:
  "sid \<notin> sd_session_id ` set docs \<Longrightarrow> update_one_push docs sid m = docs"
  by (induction docs) auto

text \<open>
  Claim C8. For every session id that no stored session has, \<open>add_message\<close> leaves the
  whole store as it was: every session and its messages are unchanged, and there is no
  error (the operation has no failing branch).
\<close>

theorem add_message_unknown_session:
  "sid \<notin> sd_session_id ` set docs \<Longrightarrow> add_message now docs sid question ans sources = docs"
  by (simp add: add_message_def update_one_push_absent)

text \<open>Claim C8, at a store holding session \<open>s1\<close> and an append to \<open>s2\<close>.\<close>

theorem add_message_unknown_session_witness:
  "add_message ''t1'' example_sessions ''s2'' ''q'' ''a'' [] = example_sessions"
  using add_message_unknown_session [of "''s2''" example_sessions]
  by (simp add: example_sessions_def)

text \<open>
  Claim C7 fails at \<open>n = 0\<close>. A fresh session receives one message; reading the recent
  history with limit 0 returns that message, where the last \<open>min 0 1 = 0\<close> messages are
  none: the slice \<^verbatim>\<open>messages_data[-0:]\<close> is the whole list.
\<close>

theorem get_recent_history_zero_limit:
  "get_recent_history
     (add_message ''t1'' (snd (create_session [] ''s1'' ''t0'')) ''s1'' ''q1'' ''a1'' [])
     ''s1'' 0
   = [\<lparr>cm_question = ''q1'', cm_answer = ''a1'', cm_sources = [], cm_timestamp = ''t1''\<rparr>]"
  by (simp add: get_recent_history_def add_message_def create_session_def insert_one_def
        find_one_def slice_from_def)

text \<open>
  For a positive limit the round trip holds: after creating a session under an unused id
  and appending turns in order, the recent history is the last \<open>min n count\<close> messages,
  oldest first, with the fields as written. An unknown session id reads as empty.
\<close>

lemma update_one_push_last:
  "sid \<notin> sd_session_id ` set docs \<Longrightarrow> sd_session_id d = sid \<Longrightarrow>
     update_one_push (docs @ [d]) sid m = docs @ [d\<lparr>sd_messages := sd_messages d @ [m]\<rparr>]"
  by (induction docs) auto

lemma find_one_last:
  "sid \<notin> sd_session_id ` set docs \<Longrightarrow> sd_session_id d = sid \<Longrightarrow>
     find_one (docs @ [d]) sid = Some d"
  by (induction docs) (auto simp: find_one_def)

lemma appended_turns:
  "sid \<notin> sd_session_id ` set docs \<Longrightarrow> sd_session_id d = sid \<Longrightarrow>
   foldl (\<lambda>ds (now, q, a, srcs). add_message now ds sid q a srcs) (docs @ [d]) turns
     = docs @ [d\<lparr>sd_messages := sd_messages d @ map turn_message turns\<rparr>]"
proof (induction turns arbitrary: d)
  case Nil
  then show ?case by simp
next
  case (Cons t turns)
  obtain now q a srcs where t: "t = (now, q, a, srcs)" by (cases t)
  let ?d' = "d\<lparr>sd_messages := sd_messages d @ [turn_message t]\<rparr>"
  have step: "add_message now (docs @ [d]) sid q a srcs = docs @ [?d']"
    using Cons.prems t by (simp add: add_message_def update_one_push_last turn_message_def)
  have "sd_session_id ?d' = sid" using Cons.prems by simp
  from Cons.IH [OF Cons.prems(1) this] step t show ?case by simp
qed

lemma slice_from_last:
  "0 < n \<Longrightarrow> int (length xs) > n \<Longrightarrow> slice_from xs (- n) = drop (length xs - nat n) xs"
  by (simp add: slice_from_def Let_def nat_diff_distrib' max_def)

lemma get_recent_history_round_trip:
  assumes fresh: "sid \<notin> sd_session_id ` set docs" and pos: "0 < n"
  shows "get_recent_history
           (foldl (\<lambda>ds (now, q, a, srcs). add_message now ds sid q a srcs)
              (snd (create_session docs sid t0)) turns) sid n
         = drop (length turns - min (nat n) (length turns)) (map turn_message turns)"
proof -
  define d where "d = \<lparr>sd_session_id = sid, sd_messages = map turn_message turns,
                        sd_created_at = t0\<rparr>"
  have docs': "foldl (\<lambda>ds (now, q, a, srcs). add_message now ds sid q a srcs)
              (snd (create_session docs sid t0)) turns = docs @ [d]"
    using appended_turns [OF fresh, of "\<lparr>sd_session_id = sid, sd_messages = [],
                        sd_created_at = t0\<rparr>" turns]
    by (simp add: create_session_def insert_one_def d_def)
  have found: "find_one (docs @ [d]) sid = Some d"
    using fresh by (simp add: find_one_last d_def)
  have msgs: "sd_messages d = map turn_message turns" by (simp add: d_def)
  show ?thesis
  proof (cases "int (length turns) > n")
    case True
    with pos have "slice_from (map turn_message turns) (- n)
        = drop (length turns - nat n) (map turn_message turns)"
      by (simp add: slice_from_last)
    moreover from True pos have "min (nat n) (length turns) = nat n" by simp
    ultimately show ?thesis
      using True by (simp add: docs' found msgs get_recent_history_def)
  next
    case False
    then have "min (nat n) (length turns) = length turns" by simp
    with False show ?thesis
      by (simp add: docs' found msgs get_recent_history_def)
  qed
qed

lemma get_recent_history_unknown_session:
  "sid \<notin> sd_session_id ` set docs \<Longrightarrow> get_recent_history docs sid n = []"
  by (simp add: get_recent_history_def find_one_None_iff [THEN iffD2])

section \<open>The answer pipeline\<close>

lemma example_search:
  "search example_collection q 3 =
     Inr [\<lparr>sr_content = ''A'', sr_score = 9 / 10,
           sr_metadata = [''source_file'' \<mapsto> MStr ''faq.xlsx''], sr_content_type = TEXT\<rparr>]"
  by (simp add: search_def example_collection_def content_type_of_def)

lemma example_is_empty: "is_empty example_collection = Inr False"
  by (simp add: is_empty_def example_collection_def)

lemma example_sources:
  "build_sources [\<lparr>sr_content = ''A'', sr_score = 9 / 10,
           sr_metadata = [''source_file'' \<mapsto> MStr ''faq.xlsx''], sr_content_type = TEXT\<rparr>]
   = Inr [\<lparr>si_content = ''A'', si_source_file = ''faq.xlsx'', si_content_type = TEXT,
           si_score = 9 / 10, si_image_path = None\<rparr>]"
  by (simp add: build_sources_def make_source_def source_file_of_def image_path_of_def)

text \<open>
  Claim C3. For every question and session id, if the vector store reports zero stored
  items, \<open>answer\<close> returns the fixed "knowledge base not built" text, an empty source list
  and the given session id; the only call it makes is the emptiness check, so the provider
  is not invoked, and the stored sessions are unchanged.
\<close>

theorem answer_empty_store:
  "col_count (env_store e) = Inr 0 \<Longrightarrow>
   answer e docs question sid =
     \<lparr>run_result = Inr \<lparr>cr_answer = KNOWLEDGE_BASE_NOT_BUILT, cr_sources = [],
                        cr_session_id = sid\<rparr>,
      run_sessions = docs, run_calls = [CallIsEmpty]\<rparr>"
  by (simp add: answer_def is_empty_def)

text \<open>Claim C3, at an index that reports zero items.\<close>

theorem answer_empty_store_witness:
  "answer (example_env\<lparr>env_store := example_collection\<lparr>col_count := Inr 0\<rparr>\<rparr>)
      example_sessions ''q'' ''s1'' =
     \<lparr>run_result = Inr \<lparr>cr_answer = KNOWLEDGE_BASE_NOT_BUILT, cr_sources = [],
                        cr_session_id = ''s1''\<rparr>,
      run_sessions = example_sessions, run_calls = [CallIsEmpty]\<rparr>"
  using answer_empty_store
    [of "example_env\<lparr>env_store := example_collection\<lparr>col_count := Inr 0\<rparr>\<rparr>"
        example_sessions "''q''" "''s1''"]
  by simp

text \<open>
  Claim C10. The emptiness check runs outside the handler: in every call in which it
  raises, \<open>answer\<close> lets that exception reach its caller and returns no answer object.
\<close>

theorem answer_emptiness_check_raises:
  "is_empty (env_store e) = Inl x \<Longrightarrow>
   answer e docs question sid =
     \<lparr>run_result = Inl x, run_sessions = docs, run_calls = [CallIsEmpty]\<rparr>"
  by (simp add: answer_def)

text \<open>Claim C10, at an index whose count raises.\<close>

theorem answer_emptiness_check_raises_witness:
  "answer (example_env\<lparr>env_store := example_collection\<lparr>col_count := Inl (Exception ''RuntimeError'')\<rparr>\<rparr>)
      example_sessions ''q'' ''s1'' =
     \<lparr>run_result = Inl (Exception ''RuntimeError''), run_sessions = example_sessions,
      run_calls = [CallIsEmpty]\<rparr>"
  using answer_emptiness_check_raises
    [of "example_env\<lparr>env_store := example_collection\<lparr>col_count := Inl (Exception ''RuntimeError'')\<rparr>\<rparr>"
        "Exception ''RuntimeError''" example_sessions "''q''" "''s1''"]
  by (simp add: is_empty_def)


lemma answer_handler:
  assumes "is_empty (env_store e) = Inr False"
    and "run_result (try_block e docs question sid) = Inl (Exception name)"
  shows "run_result (answer e docs question sid) =
     Inr \<lparr>cr_answer = ANSWER_GENERATION_FAILED, cr_sources = [], cr_session_id = sid\<rparr>"
  using assms by (simp add: answer_def Let_def)




text \<open>
  Claim C2, as amended. In every call in which generation succeeds and the history append
  then raises an exception that is an instance of \<^verbatim>\<open>Exception\<close>, \<open>answer\<close> returns the
  fixed failure message with an empty source list and the given session id; the generated
  text is not returned.
\<close>

theorem answer_append_failure:
  assumes "is_empty (env_store e) = Inr False"
    and "search (env_store e) question (env_top_k e) = Inr rs"
    and "env_find_one_raises e = None"
    and "env_chat_completion e
           (build_prompt question rs (get_recent_history docs sid (env_history_limit e)))
         = Inr resp"
    and "build_sources rs = Inr srcs"
    and "env_update_one_raises e = Some (Exception name)"
  shows "run_result (answer e docs question sid) =
     Inr \<lparr>cr_answer = ANSWER_GENERATION_FAILED, cr_sources = [], cr_session_id = sid\<rparr>"
proof -
  from assms(2-6) have "run_result (try_block e docs question sid) = Inl (Exception name)"
    by (simp add: try_block_def)
  with assms(1) show ?thesis by (rule answer_handler)
qed

text \<open>Claim C2 as amended, at a database driver that raises during the append.\<close>

theorem answer_append_failure_witness:
  "run_result
     (answer (example_env\<lparr>env_update_one_raises := Some (Exception ''AutoReconnect'')\<rparr>)
        example_sessions ''q'' ''s1'') =
     Inr \<lparr>cr_answer = ANSWER_GENERATION_FAILED, cr_sources = [], cr_session_id = ''s1''\<rparr>"
  by (rule answer_append_failure [where name = "''AutoReconnect''"
        and resp = "\<lparr>llm_content = ''ok'', llm_model = ''m'', llm_usage = Map.empty\<rparr>"
        and rs = "[\<lparr>sr_content = ''A'', sr_score = 9 / 10,
            sr_metadata = [''source_file'' \<mapsto> MStr ''faq.xlsx''], sr_content_type = TEXT\<rparr>]"
        and srcs = "[\<lparr>si_content = ''A'', si_source_file = ''faq.xlsx'', si_content_type = TEXT,
           si_score = 9 / 10, si_image_path = None\<rparr>]"])
     (simp_all add: example_env_def example_is_empty example_search example_sources)

text \<open>
  Claim C2 as stated fails: the provider generates \<open>ok\<close>, the append raises, and the text
  returned to the caller is the fixed failure message, which is not \<open>ok\<close>.
\<close>

theorem answer_append_failure_loses_text:
  "env_chat_completion example_env
       (build_prompt ''q''
          [\<lparr>sr_content = ''A'', sr_score = 9 / 10,
            sr_metadata = [''source_file'' \<mapsto> MStr ''faq.xlsx''], sr_content_type = TEXT\<rparr>]
          (get_recent_history example_sessions ''s1'' 5))
     = Inr \<lparr>llm_content = ''ok'', llm_model = ''m'', llm_usage = Map.empty\<rparr>
   \<and> run_result
       (answer (example_env\<lparr>env_update_one_raises := Some (Exception ''AutoReconnect'')\<rparr>)
          example_sessions ''q'' ''s1'')
     = Inr \<lparr>cr_answer = ANSWER_GENERATION_FAILED, cr_sources = [], cr_session_id = ''s1''\<rparr>
   \<and> ANSWER_GENERATION_FAILED \<noteq> ''ok''"
  by (simp add: answer_def try_block_def example_env_def example_is_empty example_search
        example_sources ANSWER_GENERATION_FAILED_def)

text \<open>
  Claim C9. In every call of \<open>answer\<close> in which the provider's chat completion is invoked
  and raises, the append to the session store is not invoked, and the stored sessions are
  exactly as they were before the call.
\<close>

theorem generation_failure_leaves_history:
  assumes "CallChatCompletion messages \<in> set (run_calls (answer e docs question sid))"
    and "env_chat_completion e messages = Inl x"
  shows "run_sessions (answer e docs question sid) = docs \<and>
         (\<forall>s q a srcs. CallAddMessage s q a srcs \<notin> set (run_calls (answer e docs question sid)))"
  using assms
  by (auto simp: answer_def try_block_def Let_def
           split: sum.splits option.splits exn.splits bool.splits)

text \<open>Claim C9, at a provider that raises an API error.\<close>

theorem generation_failure_leaves_history_witness:
  "run_sessions
     (answer (example_env\<lparr>env_chat_completion := (\<lambda>messages. Inl (Exception ''APIError''))\<rparr>)
        example_sessions ''q'' ''s1'') = example_sessions"
  using generation_failure_leaves_history
    [of "build_prompt ''q''
          [\<lparr>sr_content = ''A'', sr_score = 9 / 10,
            sr_metadata = [''source_file'' \<mapsto> MStr ''faq.xlsx''], sr_content_type = TEXT\<rparr>]
          (get_recent_history example_sessions ''s1'' 5)"
        "example_env\<lparr>env_chat_completion := (\<lambda>messages. Inl (Exception ''APIError''))\<rparr>"
        example_sessions "''q''" "''s1''" "Exception ''APIError''"]
  by (simp add: answer_def try_block_def example_env_def example_is_empty example_search)

end
